theory Spec2Isabelle
  imports Complex_Main
begin

section \<open>Periodic table and basis-set support (frontend utils/elements)\<close>

text \<open>
  Strings are lists of 8-bit characters. Every key, symbol and property name of the
  program is ASCII, and on ASCII \<open>String.prototype.toLowerCase\<close> maps \<open>A\<close>..\<open>Z\<close> to
  \<open>a\<close>..\<open>z\<close> and leaves every other character alone. Atomic numbers are the
  integral JavaScript numbers 1..118, modelled as natural numbers.
\<close>

record Element =
  atomic_number :: nat
  symbol :: string
  name :: string

definition ALL_ELEMENTS :: "Element list" where
  "ALL_ELEMENTS = [
    \<lparr>atomic_number = 1, symbol = ''H'', name = ''Hydrogen''\<rparr>,
    \<lparr>atomic_number = 2, symbol = ''He'', name = ''Helium''\<rparr>,
    \<lparr>atomic_number = 3, symbol = ''Li'', name = ''Lithium''\<rparr>,
    \<lparr>atomic_number = 4, symbol = ''Be'', name = ''Beryllium''\<rparr>,
    \<lparr>atomic_number = 5, symbol = ''B'', name = ''Boron''\<rparr>,
    \<lparr>atomic_number = 6, symbol = ''C'', name = ''Carbon''\<rparr>,
    \<lparr>atomic_number = 7, symbol = ''N'', name = ''Nitrogen''\<rparr>,
    \<lparr>atomic_number = 8, symbol = ''O'', name = ''Oxygen''\<rparr>,
    \<lparr>atomic_number = 9, symbol = ''F'', name = ''Fluorine''\<rparr>,
    \<lparr>atomic_number = 10, symbol = ''Ne'', name = ''Neon''\<rparr>,
    \<lparr>atomic_number = 11, symbol = ''Na'', name = ''Sodium''\<rparr>,
    \<lparr>atomic_number = 12, symbol = ''Mg'', name = ''Magnesium''\<rparr>,
    \<lparr>atomic_number = 13, symbol = ''Al'', name = ''Aluminum''\<rparr>,
    \<lparr>atomic_number = 14, symbol = ''Si'', name = ''Silicon''\<rparr>,
    \<lparr>atomic_number = 15, symbol = ''P'', name = ''Phosphorus''\<rparr>,
    \<lparr>atomic_number = 16, symbol = ''S'', name = ''Sulfur''\<rparr>,
    \<lparr>atomic_number = 17, symbol = ''Cl'', name = ''Chlorine''\<rparr>,
    \<lparr>atomic_number = 18, symbol = ''Ar'', name = ''Argon''\<rparr>,
    \<lparr>atomic_number = 19, symbol = ''K'', name = ''Potassium''\<rparr>,
    \<lparr>atomic_number = 20, symbol = ''Ca'', name = ''Calcium''\<rparr>,
    \<lparr>atomic_number = 21, symbol = ''Sc'', name = ''Scandium''\<rparr>,
    \<lparr>atomic_number = 22, symbol = ''Ti'', name = ''Titanium''\<rparr>,
    \<lparr>atomic_number = 23, symbol = ''V'', name = ''Vanadium''\<rparr>,
    \<lparr>atomic_number = 24, symbol = ''Cr'', name = ''Chromium''\<rparr>,
    \<lparr>atomic_number = 25, symbol = ''Mn'', name = ''Manganese''\<rparr>,
    \<lparr>atomic_number = 26, symbol = ''Fe'', name = ''Iron''\<rparr>,
    \<lparr>atomic_number = 27, symbol = ''Co'', name = ''Cobalt''\<rparr>,
    \<lparr>atomic_number = 28, symbol = ''Ni'', name = ''Nickel''\<rparr>,
    \<lparr>atomic_number = 29, symbol = ''Cu'', name = ''Copper''\<rparr>,
    \<lparr>atomic_number = 30, symbol = ''Zn'', name = ''Zinc''\<rparr>,
    \<lparr>atomic_number = 31, symbol = ''Ga'', name = ''Gallium''\<rparr>,
    \<lparr>atomic_number = 32, symbol = ''Ge'', name = ''Germanium''\<rparr>,
    \<lparr>atomic_number = 33, symbol = ''As'', name = ''Arsenic''\<rparr>,
    \<lparr>atomic_number = 34, symbol = ''Se'', name = ''Selenium''\<rparr>,
    \<lparr>atomic_number = 35, symbol = ''Br'', name = ''Bromine''\<rparr>,
    \<lparr>atomic_number = 36, symbol = ''Kr'', name = ''Krypton''\<rparr>,
    \<lparr>atomic_number = 37, symbol = ''Rb'', name = ''Rubidium''\<rparr>,
    \<lparr>atomic_number = 38, symbol = ''Sr'', name = ''Strontium''\<rparr>,
    \<lparr>atomic_number = 39, symbol = ''Y'', name = ''Yttrium''\<rparr>,
    \<lparr>atomic_number = 40, symbol = ''Zr'', name = ''Zirconium''\<rparr>,
    \<lparr>atomic_number = 41, symbol = ''Nb'', name = ''Niobium''\<rparr>,
    \<lparr>atomic_number = 42, symbol = ''Mo'', name = ''Molybdenum''\<rparr>,
    \<lparr>atomic_number = 43, symbol = ''Tc'', name = ''Technetium''\<rparr>,
    \<lparr>atomic_number = 44, symbol = ''Ru'', name = ''Ruthenium''\<rparr>,
    \<lparr>atomic_number = 45, symbol = ''Rh'', name = ''Rhodium''\<rparr>,
    \<lparr>atomic_number = 46, symbol = ''Pd'', name = ''Palladium''\<rparr>,
    \<lparr>atomic_number = 47, symbol = ''Ag'', name = ''Silver''\<rparr>,
    \<lparr>atomic_number = 48, symbol = ''Cd'', name = ''Cadmium''\<rparr>,
    \<lparr>atomic_number = 49, symbol = ''In'', name = ''Indium''\<rparr>,
    \<lparr>atomic_number = 50, symbol = ''Sn'', name = ''Tin''\<rparr>,
    \<lparr>atomic_number = 51, symbol = ''Sb'', name = ''Antimony''\<rparr>,
    \<lparr>atomic_number = 52, symbol = ''Te'', name = ''Tellurium''\<rparr>,
    \<lparr>atomic_number = 53, symbol = ''I'', name = ''Iodine''\<rparr>,
    \<lparr>atomic_number = 54, symbol = ''Xe'', name = ''Xenon''\<rparr>,
    \<lparr>atomic_number = 55, symbol = ''Cs'', name = ''Cesium''\<rparr>,
    \<lparr>atomic_number = 56, symbol = ''Ba'', name = ''Barium''\<rparr>,
    \<lparr>atomic_number = 57, symbol = ''La'', name = ''Lanthanum''\<rparr>,
    \<lparr>atomic_number = 58, symbol = ''Ce'', name = ''Cerium''\<rparr>,
    \<lparr>atomic_number = 59, symbol = ''Pr'', name = ''Praseodymium''\<rparr>,
    \<lparr>atomic_number = 60, symbol = ''Nd'', name = ''Neodymium''\<rparr>,
    \<lparr>atomic_number = 61, symbol = ''Pm'', name = ''Promethium''\<rparr>,
    \<lparr>atomic_number = 62, symbol = ''Sm'', name = ''Samarium''\<rparr>,
    \<lparr>atomic_number = 63, symbol = ''Eu'', name = ''Europium''\<rparr>,
    \<lparr>atomic_number = 64, symbol = ''Gd'', name = ''Gadolinium''\<rparr>,
    \<lparr>atomic_number = 65, symbol = ''Tb'', name = ''Terbium''\<rparr>,
    \<lparr>atomic_number = 66, symbol = ''Dy'', name = ''Dysprosium''\<rparr>,
    \<lparr>atomic_number = 67, symbol = ''Ho'', name = ''Holmium''\<rparr>,
    \<lparr>atomic_number = 68, symbol = ''Er'', name = ''Erbium''\<rparr>,
    \<lparr>atomic_number = 69, symbol = ''Tm'', name = ''Thulium''\<rparr>,
    \<lparr>atomic_number = 70, symbol = ''Yb'', name = ''Ytterbium''\<rparr>,
    \<lparr>atomic_number = 71, symbol = ''Lu'', name = ''Lutetium''\<rparr>,
    \<lparr>atomic_number = 72, symbol = ''Hf'', name = ''Hafnium''\<rparr>,
    \<lparr>atomic_number = 73, symbol = ''Ta'', name = ''Tantalum''\<rparr>,
    \<lparr>atomic_number = 74, symbol = ''W'', name = ''Tungsten''\<rparr>,
    \<lparr>atomic_number = 75, symbol = ''Re'', name = ''Rhenium''\<rparr>,
    \<lparr>atomic_number = 76, symbol = ''Os'', name = ''Osmium''\<rparr>,
    \<lparr>atomic_number = 77, symbol = ''Ir'', name = ''Iridium''\<rparr>,
    \<lparr>atomic_number = 78, symbol = ''Pt'', name = ''Platinum''\<rparr>,
    \<lparr>atomic_number = 79, symbol = ''Au'', name = ''Gold''\<rparr>,
    \<lparr>atomic_number = 80, symbol = ''Hg'', name = ''Mercury''\<rparr>,
    \<lparr>atomic_number = 81, symbol = ''Tl'', name = ''Thallium''\<rparr>,
    \<lparr>atomic_number = 82, symbol = ''Pb'', name = ''Lead''\<rparr>,
    \<lparr>atomic_number = 83, symbol = ''Bi'', name = ''Bismuth''\<rparr>,
    \<lparr>atomic_number = 84, symbol = ''Po'', name = ''Polonium''\<rparr>,
    \<lparr>atomic_number = 85, symbol = ''At'', name = ''Astatine''\<rparr>,
    \<lparr>atomic_number = 86, symbol = ''Rn'', name = ''Radon''\<rparr>,
    \<lparr>atomic_number = 87, symbol = ''Fr'', name = ''Francium''\<rparr>,
    \<lparr>atomic_number = 88, symbol = ''Ra'', name = ''Radium''\<rparr>,
    \<lparr>atomic_number = 89, symbol = ''Ac'', name = ''Actinium''\<rparr>,
    \<lparr>atomic_number = 90, symbol = ''Th'', name = ''Thorium''\<rparr>,
    \<lparr>atomic_number = 91, symbol = ''Pa'', name = ''Protactinium''\<rparr>,
    \<lparr>atomic_number = 92, symbol = ''U'', name = ''Uranium''\<rparr>,
    \<lparr>atomic_number = 93, symbol = ''Np'', name = ''Neptunium''\<rparr>,
    \<lparr>atomic_number = 94, symbol = ''Pu'', name = ''Plutonium''\<rparr>,
    \<lparr>atomic_number = 95, symbol = ''Am'', name = ''Americium''\<rparr>,
    \<lparr>atomic_number = 96, symbol = ''Cm'', name = ''Curium''\<rparr>,
    \<lparr>atomic_number = 97, symbol = ''Bk'', name = ''Berkelium''\<rparr>,
    \<lparr>atomic_number = 98, symbol = ''Cf'', name = ''Californium''\<rparr>,
    \<lparr>atomic_number = 99, symbol = ''Es'', name = ''Einsteinium''\<rparr>,
    \<lparr>atomic_number = 100, symbol = ''Fm'', name = ''Fermium''\<rparr>,
    \<lparr>atomic_number = 101, symbol = ''Md'', name = ''Mendelevium''\<rparr>,
    \<lparr>atomic_number = 102, symbol = ''No'', name = ''Nobelium''\<rparr>,
    \<lparr>atomic_number = 103, symbol = ''Lr'', name = ''Lawrencium''\<rparr>,
    \<lparr>atomic_number = 104, symbol = ''Rf'', name = ''Rutherfordium''\<rparr>,
    \<lparr>atomic_number = 105, symbol = ''Db'', name = ''Dubnium''\<rparr>,
    \<lparr>atomic_number = 106, symbol = ''Sg'', name = ''Seaborgium''\<rparr>,
    \<lparr>atomic_number = 107, symbol = ''Bh'', name = ''Bohrium''\<rparr>,
    \<lparr>atomic_number = 108, symbol = ''Hs'', name = ''Hassium''\<rparr>,
    \<lparr>atomic_number = 109, symbol = ''Mt'', name = ''Meitnerium''\<rparr>,
    \<lparr>atomic_number = 110, symbol = ''Ds'', name = ''Darmstadtium''\<rparr>,
    \<lparr>atomic_number = 111, symbol = ''Rg'', name = ''Roentgenium''\<rparr>,
    \<lparr>atomic_number = 112, symbol = ''Cn'', name = ''Copernicium''\<rparr>,
    \<lparr>atomic_number = 113, symbol = ''Nh'', name = ''Nihonium''\<rparr>,
    \<lparr>atomic_number = 114, symbol = ''Fl'', name = ''Flerovium''\<rparr>,
    \<lparr>atomic_number = 115, symbol = ''Mc'', name = ''Moscovium''\<rparr>,
    \<lparr>atomic_number = 116, symbol = ''Lv'', name = ''Livermorium''\<rparr>,
    \<lparr>atomic_number = 117, symbol = ''Ts'', name = ''Tennessine''\<rparr>,
    \<lparr>atomic_number = 118, symbol = ''Og'', name = ''Oganesson''\<rparr>]"

type_synonym Range = "nat \<times> nat"

text \<open>The own properties of the object literal \<open>BASIS_SET_RANGES\<close>, in source order.\<close>

definition BASIS_SET_RANGES :: "(string \<times> Range list) list" where
  "BASIS_SET_RANGES = [
    (''sto-3g'', [(1, 54)]),
    (''sto-6g'', [(1, 54)]),
    (''3-21g'', [(1, 55)]),
    (''6-31g'', [(1, 36)]),
    (''6-31g*'', [(1, 36)]),
    (''cc-pvdz'', [(1, 18), (20, 36)]),
    (''cc-pvtz'', [(1, 18), (20, 36)]),
    (''def2-svp'', [(1, 86)]),
    (''def2-tzvp'', [(1, 86)]),
    (''dyall-ae4z'', [(1, 118)])]"

text \<open>
  \<open>BASIS_SET_RANGES\<close> is created by an object literal, so its prototype is
  \<open>Object.prototype\<close> and the property read \<open>BASIS_SET_RANGES[k]\<close> walks the prototype
  chain: a name that is no own property but a member of \<open>Object.prototype\<close> reads as
  that member (a function, or for \<open>__proto__\<close> the prototype object itself), not as
  \<open>undefined\<close>. These are the member names of \<open>Object.prototype\<close>.
\<close>

definition Object_prototype_names :: "string list" where
  "Object_prototype_names = [
    ''constructor'', ''__defineGetter__'', ''__defineSetter__'', ''hasOwnProperty'',
    ''__lookupGetter__'', ''__lookupSetter__'', ''isPrototypeOf'',
    ''propertyIsEnumerable'', ''toString'', ''valueOf'', ''__proto__'',
    ''toLocaleString'']"

text \<open>What a property read on \<open>BASIS_SET_RANGES\<close> evaluates to.\<close>

datatype property_value =
    Undefined
  | OwnRanges "Range list"
  | InheritedMember

definition get_BASIS_SET_RANGES :: "string \<Rightarrow> property_value" where
  "get_BASIS_SET_RANGES k =
     (case map_of BASIS_SET_RANGES k of
        Some ranges \<Rightarrow> OwnRanges ranges
      | None \<Rightarrow> if k \<in> set Object_prototype_names then InheritedMember else Undefined)"

definition toLowerCase_char :: "char \<Rightarrow> char" where
  "toLowerCase_char c =
     (let n = (of_char c :: nat) in if 65 \<le> n \<and> n \<le> 90 then char_of (n + 32) else c)"

definition toLowerCase :: "string \<Rightarrow> string" where
  "toLowerCase s = map toLowerCase_char s"

text \<open>Exceptions a JavaScript evaluation can end with.\<close>

datatype js_error = TypeError

text \<open>The inner loop \<open>for (let z = lo; z <= hi; z++) s.add(z)\<close>.\<close>

function add_range :: "nat \<Rightarrow> nat \<Rightarrow> nat set \<Rightarrow> nat set" where
  "add_range z hi s = (if z \<le> hi then add_range (z + 1) hi (insert z s) else s)"
  by pat_completeness auto
termination
  by (relation "measure (\<lambda>(z, hi, s). Suc hi - z)") auto

declare add_range.simps [simp del]

text \<open>The outer loop \<open>for (const [lo, hi] of ranges)\<close> over an array of ranges.\<close>

fun add_ranges :: "Range list \<Rightarrow> nat set \<Rightarrow> nat set" where
  "add_ranges [] s = s"
| "add_ranges ((lo, hi) # ranges) s = add_ranges ranges (add_range lo hi s)"

text \<open>
  \<open>supportedZSet\<close>: the fallback is taken when the property read is falsy, that is
  \<open>undefined\<close>. An inherited member is truthy, so the fallback is skipped, and it is not
  iterable, so \<open>for ... of\<close> throws a \<open>TypeError\<close>.
\<close>

definition supportedZSet :: "string \<Rightarrow> js_error + nat set" where
  "supportedZSet basisSet =
     (case get_BASIS_SET_RANGES (toLowerCase basisSet) of
        Undefined \<Rightarrow> Inr (set (map atomic_number ALL_ELEMENTS))
      | InheritedMember \<Rightarrow> Inl TypeError
      | OwnRanges ranges \<Rightarrow> Inr (add_ranges ranges {}))"

definition getElementsForBasisSet :: "string \<Rightarrow> js_error + Element list" where
  "getElementsForBasisSet basisSet =
     (case supportedZSet basisSet of
        Inl e \<Rightarrow> Inl e
      | Inr allowed \<Rightarrow> Inr (filter (\<lambda>e. atomic_number e \<in> allowed) ALL_ELEMENTS))"

definition isElementSupported :: "string \<Rightarrow> string \<Rightarrow> js_error + bool" where
  "isElementSupported symb basisSet =
     (case find (\<lambda>e. symbol e = symb) ALL_ELEMENTS of
        None \<Rightarrow> Inr False
      | Some el \<Rightarrow>
          (case supportedZSet basisSet of
             Inl e \<Rightarrow> Inl e
           | Inr allowed \<Rightarrow> Inr (atomic_number el \<in> allowed)))"

section \<open>Data types of the frontend (types/index.ts)\<close>

text \<open>
  JavaScript numbers that hold coordinates, step sizes and energies are reals; counts are
  integers. An optional field is an \<open>option\<close>. Field names that two interfaces share
  carry a prefix in all but one of them.
\<close>

record Atom =
  atom_symbol :: string
  position :: "real \<times> real \<times> real"

record Molecule =
  mol_name :: string
  atoms :: "Atom list"
  charge :: int
  multiplicity :: int
  basis_set :: string

record VQEConfig =
  step_size :: real
  num_steps :: int
  convergence_threshold :: "real option"

record SQDConfig =
  samples_per_batch :: int
  max_iterations :: int
  num_batches :: int
  num_shots :: int
  use_hardware :: bool
  ibm_api_key :: "string option"

datatype sim_method = Vqe | Sqd

record SimulationRequest =
  req_molecule :: Molecule
  req_method :: sim_method
  vqe_config :: "VQEConfig option"
  sqd_config :: "SQDConfig option"

datatype JobStatus = Pending | Running | Completed | Failed | Cancelled

record Job =
  id :: string
  status :: JobStatus
  job_method :: string
  molecule_name :: string
  created_at :: string
  started_at :: "string option"
  completed_at :: "string option"
  progress :: int
  current_step :: string
  result_energy :: "real option"
  energy_history :: "real list option"
  error_message :: "string option"

record CreateJobResponse =
  message :: string
  job_id :: string
  created_status :: JobStatus
  status_url :: string

text \<open>
  \<open>recommended_method\<close> is declared mandatory, but \<open>handleValidate\<close> tests it for
  truthiness, so a response without it is provided for.
\<close>

record ValidationResponse =
  valid :: bool
  validated_name :: string
  num_atoms :: int
  num_electrons :: int
  num_qubits_required :: int
  warnings :: "string list"
  recommended_method :: "sim_method option"

section \<open>Polling intervals (hooks/useSimulation, components/simulation/JobStatus)\<close>

text \<open>
  A \<open>refetchInterval\<close> function returns \<open>false\<close> (\<open>NoRefetch\<close>) or a number of
  milliseconds. Its argument is \<open>query.state.data\<close>, which is \<open>undefined\<close> (\<open>None\<close>)
  until the first fetch succeeds; \<open>job?.status\<close> is then \<open>undefined\<close> and equals no
  status.
\<close>

datatype refetch_interval = NoRefetch | Millis nat

definition JobStatus_refetchInterval :: "Job option \<Rightarrow> refetch_interval" where
  "JobStatus_refetchInterval job =
     (if map_option status job = Some Completed \<or> map_option status job = Some Failed
         \<or> map_option status job = Some Cancelled
      then NoRefetch else Millis 2000)"

definition currentJob_refetchInterval :: "Job option \<Rightarrow> refetch_interval" where
  "currentJob_refetchInterval job =
     (if map_option status job = Some Completed \<or> map_option status job = Some Failed
      then NoRefetch else Millis 2000)"

section \<open>The molecule builder (components/molecules/MoleculeBuilder, AtomInput)\<close>

definition DEFAULT_ATOM :: Atom where
  "DEFAULT_ATOM = \<lparr>atom_symbol = ''H'', position = (0, 0, 0)\<rparr>"

text \<open>Each handler returns the molecule it hands to \<open>onChange\<close>.\<close>

definition handleAddAtom :: "Molecule \<Rightarrow> Molecule" where
  "handleAddAtom molecule = molecule\<lparr>atoms := atoms molecule @ [DEFAULT_ATOM]\<rparr>"

text \<open>\<open>molecule.atoms.filter((_, i) => i !== index)\<close>.\<close>

definition handleRemoveAtom :: "Molecule \<Rightarrow> nat \<Rightarrow> Molecule" where
  "handleRemoveAtom molecule index =
     molecule\<lparr>atoms := map snd (filter (\<lambda>(i, _). i \<noteq> index) (enumerate 0 (atoms molecule)))\<rparr>"

text \<open>The \<open>canRemove\<close> prop every \<open>AtomInput\<close> receives.\<close>

definition canRemove :: "Molecule \<Rightarrow> bool" where
  "canRemove molecule = (length (atoms molecule) > 1)"

text \<open>
  The add and remove actions a user can take. There is one \<open>AtomInput\<close>, hence one
  remove button, per index of \<open>molecule.atoms\<close>, and the button is rendered with
  \<open>disabled={!canRemove}\<close>: a click on a disabled button calls no handler.
\<close>

datatype builder_event = ClickAddAtom | ClickRemoveAtom nat

definition builder_click :: "Molecule \<Rightarrow> builder_event \<Rightarrow> Molecule" where
  "builder_click molecule ev =
     (case ev of
        ClickAddAtom \<Rightarrow> handleAddAtom molecule
      | ClickRemoveAtom index \<Rightarrow>
          if index < length (atoms molecule) \<and> canRemove molecule
          then handleRemoveAtom molecule index else molecule)"

section \<open>The simulation page (pages/SimulationPage)\<close>

datatype page_step = StepBuild | StepConfig | StepRunning

text \<open>
  The state of the page: its own \<open>useState\<close> cells, the cells of the \<open>useSimulation\<close>
  and \<open>useValidation\<close> hooks it reads, and \<open>create_calls\<close>, the requests handed to
  \<open>apiClient.createSimulation\<close> so far (the bodies of \<open>POST /simulations\<close>).
\<close>

record PageState =
  molecule :: Molecule
  "method" :: sim_method
  vqeConfig :: VQEConfig
  sqdConfig :: SQDConfig
  step :: page_step
  currentJobId :: "string option"
  validationResult :: "ValidationResponse option"
  validationError :: "string option"
  createError :: "string option"
  create_calls :: "SimulationRequest list"

definition DEFAULT_MOLECULE :: Molecule where
  "DEFAULT_MOLECULE = \<lparr>mol_name = '''',
     atoms = [\<lparr>atom_symbol = ''H'', position = (0, 0, - 0.69)\<rparr>,
              \<lparr>atom_symbol = ''H'', position = (0, 0, 0.69)\<rparr>],
     charge = 0, multiplicity = 1, basis_set = ''sto-3g''\<rparr>"

definition DEFAULT_VQE_CONFIG :: VQEConfig where
  "DEFAULT_VQE_CONFIG = \<lparr>step_size = 0.2, num_steps = 200, convergence_threshold = None\<rparr>"

definition DEFAULT_SQD_CONFIG :: SQDConfig where
  "DEFAULT_SQD_CONFIG = \<lparr>samples_per_batch = 500, max_iterations = 100, num_batches = 5,
     num_shots = 10000, use_hardware = False, ibm_api_key = None\<rparr>"

definition initial_page :: PageState where
  "initial_page = \<lparr>molecule = DEFAULT_MOLECULE, method = Vqe,
     vqeConfig = DEFAULT_VQE_CONFIG, sqdConfig = DEFAULT_SQD_CONFIG, step = StepBuild,
     currentJobId = None, validationResult = None, validationError = None,
     createError = None, create_calls = []\<rparr>"

text \<open>
  The backend is a parameter: \<open>validate\<close> and \<open>createSimulation\<close> answer with a response
  (\<open>Inr\<close>) or reject with an error message (\<open>Inl\<close>), which the handlers catch and the
  mutation keeps.
\<close>

definition handleValidate ::
  "(Molecule \<Rightarrow> string + ValidationResponse) \<Rightarrow> PageState \<Rightarrow> PageState" where
  "handleValidate validate s =
     (case validate (molecule s) of
        Inl err \<Rightarrow> s\<lparr>validationError := Some err\<rparr>
      | Inr result \<Rightarrow>
          (let s1 = s\<lparr>validationResult := Some result, validationError := None\<rparr> in
           if valid result then
             (let s2 = s1\<lparr>step := StepConfig\<rparr> in
              case recommended_method result of
                Some m \<Rightarrow> s2\<lparr>method := m\<rparr>
              | None \<Rightarrow> s2)
           else s1))"

text \<open>\<open>onMethodChange={setMethod}\<close>: the two method buttons of \<open>SimulationConfig\<close>.\<close>

definition setMethod :: "sim_method \<Rightarrow> PageState \<Rightarrow> PageState" where
  "setMethod m s = s\<lparr>method := m\<rparr>"

text \<open>The object literal \<open>handleSubmit\<close> passes to \<open>createSimulation\<close>.\<close>

definition submitRequest :: "PageState \<Rightarrow> SimulationRequest" where
  "submitRequest s =
     \<lparr>req_molecule = molecule s, req_method = method s,
      vqe_config = (if method s = Vqe then Some (vqeConfig s) else None),
      sqd_config = (if method s = Sqd then Some (sqdConfig s) else None)\<rparr>"

definition handleSubmit ::
  "(SimulationRequest \<Rightarrow> string + CreateJobResponse) \<Rightarrow> PageState \<Rightarrow> PageState" where
  "handleSubmit createSimulation s =
     (let s1 = s\<lparr>currentJobId := None\<rparr>;
          request = submitRequest s1;
          s2 = s1\<lparr>create_calls := create_calls s1 @ [request]\<rparr>
      in case createSimulation request of
           Inl err \<Rightarrow> s2\<lparr>createError := Some err\<rparr>
         | Inr response \<Rightarrow>
             s2\<lparr>currentJobId := Some (job_id response), createError := None,
                step := StepRunning\<rparr>)"

text \<open>
  The clicks and edits the page offers. Each control is rendered in one step only: the
  molecule builder and the validate button in the build step, the method buttons, the
  back button and the run button in the configuration step. An event whose control is
  not rendered changes nothing.
\<close>

datatype page_event =
    EditMolecule Molecule
  | ClickValidate
  | ClickMethod sim_method
  | ClickBack
  | ClickRun

definition page_click ::
  "(Molecule \<Rightarrow> string + ValidationResponse) \<Rightarrow>
   (SimulationRequest \<Rightarrow> string + CreateJobResponse) \<Rightarrow>
   PageState \<Rightarrow> page_event \<Rightarrow> PageState" where
  "page_click validate createSimulation s ev =
     (case ev of
        EditMolecule m \<Rightarrow> if step s = StepBuild then s\<lparr>molecule := m\<rparr> else s
      | ClickValidate \<Rightarrow> if step s = StepBuild then handleValidate validate s else s
      | ClickMethod m \<Rightarrow> if step s = StepConfig then setMethod m s else s
      | ClickBack \<Rightarrow> if step s = StepConfig then s\<lparr>step := StepBuild\<rparr> else s
      | ClickRun \<Rightarrow> if step s = StepConfig then handleSubmit createSimulation s else s)"

text \<open>In the configuration step the validation result at hand is a valid one.\<close>

definition validated_in_config :: "PageState \<Rightarrow> bool" where
  "validated_in_config s =
     (step s \<noteq> StepConfig \<or> (\<exists>result. validationResult s = Some result \<and> valid result))"

section \<open>The job lifecycle of the backend\<close>

text \<open>
  Modelled from the spec: the Job Record Store, the Job Manager (\<open>Submit\<close>, \<open>Cancel\<close>,
  the callback handlers) and the job state machine belong to the Flask backend, which is
  not among the source files; the frontend only calls it through \<open>apiClient\<close>. The
  definitions of this section follow sections 3, 4.3, 4.4 and 7 of the specification.
  Job ids are natural numbers handed out by a counter, timestamps are natural numbers,
  and the fields of a record carry the prefix \<open>rec_\<close> where the frontend's \<open>Job\<close> has a
  field of the same name.
\<close>

record JobRecord =
  rec_id :: nat
  rec_status :: JobStatus
  rec_method :: sim_method
  molecule_snapshot :: Molecule
  config_snapshot :: "VQEConfig + SQDConfig"
  rec_progress :: int
  rec_current_step :: string
  rec_created_at :: nat
  rec_started_at :: "nat option"
  rec_completed_at :: "nat option"
  rec_result_energy :: "real option"
  rec_energy_history :: "real list option"
  rec_error_message :: "string option"
  cancellation_requested :: bool

text \<open>Modelled from the spec: the glossary's terminal states.\<close>

definition terminal :: "JobStatus \<Rightarrow> bool" where
  "terminal st = (st = Completed \<or> st = Failed \<or> st = Cancelled)"


text \<open>
  Modelled from the spec: \<open>Cancel(job_id)\<close> on the job's record, section 4.3: a no-op if
  the job is already terminal; otherwise it sets \<open>cancellation_requested\<close>, and a job
  that is still pending goes directly to cancelled. \<open>completed_at\<close> is set on any
  transition into a terminal state (section 3).
\<close>

definition Cancel :: "nat \<Rightarrow> JobRecord \<Rightarrow> JobRecord" where
  "Cancel now j =
     (if terminal (rec_status j) then j
      else
        (let j1 = j\<lparr>cancellation_requested := True\<rparr> in
         if rec_status j1 = Pending
         then j1\<lparr>rec_status := Cancelled, rec_completed_at := Some now\<rparr>
         else j1))"






text \<open>Modelled from the spec: the error kinds of section 7.\<close>

datatype error_kind =
  ValidationError | NotFoundError | CapacityError | ExecutionError | InternalError

text \<open>
  Modelled from the spec: the Job Record Store with the Dispatcher's FIFO queue of
  pending units of work.
\<close>

record JobStore =
  records :: "nat \<rightharpoonup> JobRecord"
  next_id :: nat
  queue :: "nat list"

text \<open>
  Modelled from the spec: \<open>Submit(molecule, method, config)\<close>, section 4.3. It runs the
  Validator, a parameter here; if the verdict is invalid it fails with
  \<open>ValidationError\<close> and creates no record; otherwise it creates a pending record and
  hands the unit of work to the Dispatcher. The result is paired with the store after the
  call.
\<close>

definition new_record ::
  "nat \<Rightarrow> nat \<Rightarrow> Molecule \<Rightarrow> sim_method \<Rightarrow> VQEConfig + SQDConfig \<Rightarrow> JobRecord" where
  "new_record jid now mol m config =
     \<lparr>rec_id = jid, rec_status = Pending, rec_method = m, molecule_snapshot = mol,
      config_snapshot = config, rec_progress = 0, rec_current_step = '''',
      rec_created_at = now, rec_started_at = None, rec_completed_at = None,
      rec_result_energy = None, rec_energy_history = None, rec_error_message = None,
      cancellation_requested = False\<rparr>"

definition Submit ::
  "(Molecule \<Rightarrow> sim_method \<Rightarrow> ValidationResponse) \<Rightarrow> nat \<Rightarrow> JobStore \<Rightarrow>
   Molecule \<Rightarrow> sim_method \<Rightarrow> VQEConfig + SQDConfig \<Rightarrow> (error_kind + nat) \<times> JobStore" where
  "Submit Validate now store mol m config =
     (if \<not> valid (Validate mol m) then (Inl ValidationError, store)
      else
        (let jid = next_id store in
         (Inr jid,
          store\<lparr>records := (records store)(jid \<mapsto> new_record jid now mol m config),
                next_id := Suc jid, queue := queue store @ [jid]\<rparr>)))"

text \<open>
  Modelled from the spec: \<open>Cancel(job_id)\<close> on the store; an unknown id is a
  \<open>NotFoundError\<close> (section 7).
\<close>

definition CancelJob :: "nat \<Rightarrow> JobStore \<Rightarrow> nat \<Rightarrow> (error_kind + unit) \<times> JobStore" where
  "CancelJob now store jid =
     (case records store jid of
        None \<Rightarrow> (Inl NotFoundError, store)
      | Some j \<Rightarrow> (Inr (), store\<lparr>records := (records store)(jid \<mapsto> Cancel now j)\<rparr>))"

section \<open>Basis-set support: lemmas\<close>

lemma add_range_eq: "add_range z hi s = s \<union> {z..hi}"
proof (induction z hi s rule: add_range.induct)
  case (1 z hi s)
  show ?case
  proof (cases "z \<le> hi")
    case True
    have "{z..hi} = insert z {z + 1..hi}"
      using True by auto
    with 1 True show ?thesis
      by (subst add_range.simps) auto
  next
    case False
    then show ?thesis
      by (subst add_range.simps) simp
  qed
qed

lemma lower_cc_pvdz: "toLowerCase ''cc-pvdz'' = ''cc-pvdz''"
  by code_simp

lemma lower_cc_pvtz: "toLowerCase ''cc-pvtz'' = ''cc-pvtz''"
  by code_simp

lemma lower_constructor: "toLowerCase ''constructor'' = ''constructor''"
  by code_simp

lemma supportedZSet_cc_pvdz: "supportedZSet ''cc-pvdz'' = Inr ({1..18} \<union> {20..36})"
  by (simp add: supportedZSet_def lower_cc_pvdz get_BASIS_SET_RANGES_def
      BASIS_SET_RANGES_def add_range_eq)

lemma supportedZSet_cc_pvtz: "supportedZSet ''cc-pvtz'' = Inr ({1..18} \<union> {20..36})"
  by (simp add: supportedZSet_def lower_cc_pvtz get_BASIS_SET_RANGES_def
      BASIS_SET_RANGES_def add_range_eq)

lemma supportedZSet_constructor: "supportedZSet ''constructor'' = Inl TypeError"
  by (simp add: supportedZSet_def lower_constructor get_BASIS_SET_RANGES_def
      BASIS_SET_RANGES_def Object_prototype_names_def)

lemma find_H:
  "find (\<lambda>e. symbol e = ''H'') ALL_ELEMENTS =
   Some \<lparr>atomic_number = 1, symbol = ''H'', name = ''Hydrogen''\<rparr>"
  by (simp add: ALL_ELEMENTS_def)

lemma find_Ar:
  "find (\<lambda>e. symbol e = ''Ar'') ALL_ELEMENTS =
   Some \<lparr>atomic_number = 18, symbol = ''Ar'', name = ''Argon''\<rparr>"
  by (simp add: ALL_ELEMENTS_def)

lemma find_K:
  "find (\<lambda>e. symbol e = ''K'') ALL_ELEMENTS =
   Some \<lparr>atomic_number = 19, symbol = ''K'', name = ''Potassium''\<rparr>"
  by (simp add: ALL_ELEMENTS_def)

lemma find_Ca:
  "find (\<lambda>e. symbol e = ''Ca'') ALL_ELEMENTS =
   Some \<lparr>atomic_number = 20, symbol = ''Ca'', name = ''Calcium''\<rparr>"
  by (simp add: ALL_ELEMENTS_def)

lemma lower_proto: "toLowerCase ''__proto__'' = ''__proto__''"
  by code_simp

text \<open>
  A lowercased string holds no capital letter, so of the member names of
  \<open>Object.prototype\<close> only \<open>constructor\<close> and \<open>__proto__\<close> can be read.
\<close>

lemma of_char_toLowerCase_char: "(of_char (toLowerCase_char c) :: nat) \<notin> {65..90}"
proof (cases "65 \<le> (of_char c :: nat) \<and> (of_char c :: nat) \<le> 90")
  case True
  then have "(of_char (char_of (of_char c + 32 :: nat)) :: nat) = of_char c + 32"
    by simp
  with True show ?thesis
    by (simp add: toLowerCase_char_def Let_def)
next
  case False
  then show ?thesis
    by (auto simp: toLowerCase_char_def Let_def)
qed

lemma toLowerCase_no_upper:
  "c \<in> set (toLowerCase s) \<Longrightarrow> (of_char c :: nat) \<notin> {65..90}"
  using of_char_toLowerCase_char by (auto simp: toLowerCase_def)

lemma toLowerCase_neq_upper:
  "c \<in> set nm \<Longrightarrow> (of_char c :: nat) \<in> {65..90} \<Longrightarrow> toLowerCase s \<noteq> nm"
  using toLowerCase_no_upper by blast

lemma inherited_names_reached:
  assumes "toLowerCase s \<in> set Object_prototype_names"
  shows "toLowerCase s = ''constructor'' \<or> toLowerCase s = ''__proto__''"
proof -
  have "toLowerCase s \<noteq> ''__defineGetter__''"
    by (rule toLowerCase_neq_upper [of "CHR ''G''"]) simp_all
  moreover have "toLowerCase s \<noteq> ''__defineSetter__''"
    by (rule toLowerCase_neq_upper [of "CHR ''S''"]) simp_all
  moreover have "toLowerCase s \<noteq> ''hasOwnProperty''"
    by (rule toLowerCase_neq_upper [of "CHR ''O''"]) simp_all
  moreover have "toLowerCase s \<noteq> ''__lookupGetter__''"
    by (rule toLowerCase_neq_upper [of "CHR ''G''"]) simp_all
  moreover have "toLowerCase s \<noteq> ''__lookupSetter__''"
    by (rule toLowerCase_neq_upper [of "CHR ''S''"]) simp_all
  moreover have "toLowerCase s \<noteq> ''isPrototypeOf''"
    by (rule toLowerCase_neq_upper [of "CHR ''P''"]) simp_all
  moreover have "toLowerCase s \<noteq> ''propertyIsEnumerable''"
    by (rule toLowerCase_neq_upper [of "CHR ''I''"]) simp_all
  moreover have "toLowerCase s \<noteq> ''toString''"
    by (rule toLowerCase_neq_upper [of "CHR ''S''"]) simp_all
  moreover have "toLowerCase s \<noteq> ''valueOf''"
    by (rule toLowerCase_neq_upper [of "CHR ''O''"]) simp_all
  moreover have "toLowerCase s \<noteq> ''toLocaleString''"
    by (rule toLowerCase_neq_upper [of "CHR ''L''"]) simp_all
  ultimately show ?thesis
    using assms by (simp add: Object_prototype_names_def)
qed

lemma get_constructor: "get_BASIS_SET_RANGES ''constructor'' = InheritedMember"
  by (simp add: get_BASIS_SET_RANGES_def BASIS_SET_RANGES_def Object_prototype_names_def)

lemma get_proto: "get_BASIS_SET_RANGES ''__proto__'' = InheritedMember"
  by (simp add: get_BASIS_SET_RANGES_def BASIS_SET_RANGES_def Object_prototype_names_def)

text \<open>Exactly where \<open>supportedZSet\<close> and \<open>isElementSupported\<close> throw.\<close>

lemma supportedZSet_throws_iff:
  "(supportedZSet basisSet = Inl TypeError) =
   (toLowerCase basisSet = ''constructor'' \<or> toLowerCase basisSet = ''__proto__'')"
proof
  assume "supportedZSet basisSet = Inl TypeError"
  then have "toLowerCase basisSet \<in> set Object_prototype_names"
    by (auto simp: supportedZSet_def get_BASIS_SET_RANGES_def
        split: option.splits property_value.splits if_splits)
  then show "toLowerCase basisSet = ''constructor'' \<or> toLowerCase basisSet = ''__proto__''"
    by (rule inherited_names_reached)
next
  assume "toLowerCase basisSet = ''constructor'' \<or> toLowerCase basisSet = ''__proto__''"
  then show "supportedZSet basisSet = Inl TypeError"
    by (auto simp: supportedZSet_def get_constructor get_proto)
qed

lemma isElementSupported_throws_iff:
  "(isElementSupported symb basisSet = Inl TypeError) =
   (symb \<in> symbol ` set ALL_ELEMENTS \<and>
    (toLowerCase basisSet = ''constructor'' \<or> toLowerCase basisSet = ''__proto__''))"
proof (cases "find (\<lambda>e. symbol e = symb) ALL_ELEMENTS")
  case None
  then have "symb \<notin> symbol ` set ALL_ELEMENTS"
    by (auto simp: find_None_iff)
  with None show ?thesis
    by (simp add: isElementSupported_def)
next
  case (Some el)
  then have "symb \<in> symbol ` set ALL_ELEMENTS"
    by (auto simp: find_Some_iff)
  moreover have "(isElementSupported symb basisSet = Inl TypeError) =
      (supportedZSet basisSet = Inl TypeError)"
    using Some
    by (cases "supportedZSet basisSet")
      (auto simp: isElementSupported_def intro: js_error.exhaust)
  ultimately show ?thesis
    by (simp add: supportedZSet_throws_iff)
qed

text \<open>
  What holds of the fallback and of the validity check away from the member names of
  \<open>Object.prototype\<close>: an unknown symbol is unsupported whatever the basis set; a basis
  set whose lowercased name reads as \<open>undefined\<close> allows every element of the table; and
  the check returns a boolean whenever the lowercased basis set is no such member name.
\<close>

lemma isElementSupported_unknown_symbol:
  assumes "symb \<notin> symbol ` set ALL_ELEMENTS"
  shows "isElementSupported symb basisSet = Inr False"
proof -
  have "find (\<lambda>e. symbol e = symb) ALL_ELEMENTS = None"
    using assms by (auto simp: find_None_iff)
  then show ?thesis
    by (simp add: isElementSupported_def)
qed

lemma supportedZSet_fallback:
  "get_BASIS_SET_RANGES (toLowerCase basisSet) = Undefined \<Longrightarrow>
   supportedZSet basisSet = Inr (atomic_number ` set ALL_ELEMENTS)"
  by (simp add: supportedZSet_def)

lemma getElementsForBasisSet_fallback:
  "get_BASIS_SET_RANGES (toLowerCase basisSet) = Undefined \<Longrightarrow>
   getElementsForBasisSet basisSet = Inr ALL_ELEMENTS"
  by (simp add: getElementsForBasisSet_def supportedZSet_fallback)

lemma isElementSupported_fallback:
  assumes "get_BASIS_SET_RANGES (toLowerCase basisSet) = Undefined"
    and "symb \<in> symbol ` set ALL_ELEMENTS"
  shows "isElementSupported symb basisSet = Inr True"
proof -
  obtain el where el: "find (\<lambda>e. symbol e = symb) ALL_ELEMENTS = Some el"
    using assms(2)
    by (cases "find (\<lambda>e. symbol e = symb) ALL_ELEMENTS") (auto simp: find_None_iff)
  then have "el \<in> set ALL_ELEMENTS"
    by (auto simp: find_Some_iff)
  with el assms(1) show ?thesis
    by (simp add: isElementSupported_def supportedZSet_fallback)
qed

lemma isElementSupported_returns:
  "toLowerCase basisSet \<notin> set Object_prototype_names \<Longrightarrow>
   \<exists>b. isElementSupported symb basisSet = Inr b"
  by (auto simp: isElementSupported_def supportedZSet_def get_BASIS_SET_RANGES_def
      split: option.splits property_value.splits)

section \<open>Basis-set support: the claims\<close>

text \<open>
  C1. The basis sets \<open>cc-pvdz\<close> and \<open>cc-pvtz\<close> support the atomic numbers
  \<open>[1,18] \<union> [20,36]\<close>; for both, \<open>isElementSupported\<close> reports potassium (\<open>K\<close>, atomic
  number 19) invalid and argon (\<open>Ar\<close>, 18) and calcium (\<open>Ca\<close>, 20) valid.
\<close>

theorem validator_boundary_cc_pv:
  "supportedZSet ''cc-pvdz'' = Inr ({1..18} \<union> {20..36}) \<and>
   supportedZSet ''cc-pvtz'' = Inr ({1..18} \<union> {20..36}) \<and>
   isElementSupported ''K'' ''cc-pvdz'' = Inr False \<and>
   isElementSupported ''Ar'' ''cc-pvdz'' = Inr True \<and>
   isElementSupported ''Ca'' ''cc-pvdz'' = Inr True \<and>
   isElementSupported ''K'' ''cc-pvtz'' = Inr False \<and>
   isElementSupported ''Ar'' ''cc-pvtz'' = Inr True \<and>
   isElementSupported ''Ca'' ''cc-pvtz'' = Inr True"
  by (simp add: isElementSupported_def find_K find_Ar find_Ca
      supportedZSet_cc_pvdz supportedZSet_cc_pvtz)

text \<open>
  C2. The claim: for every symbol and every basis-set string \<open>isElementSupported\<close>
  returns a boolean and never raises. The code departs from it: for the symbol \<open>H\<close> and
  the basis-set string \<open>constructor\<close> the property read yields the inherited
  \<open>Object.prototype.constructor\<close>, the fallback is skipped, and the \<open>for ... of\<close> loop
  throws a \<open>TypeError\<close>.
\<close>

theorem isElementSupported_inherited_name_throws:
  "isElementSupported ''H'' ''constructor'' = Inl TypeError"
  by (simp add: isElementSupported_def find_H supportedZSet_constructor)

text \<open>
  C8. The claim: for every basis-set string whose lowercased form is not a key of
  \<open>BASIS_SET_RANGES\<close>, \<open>supportedZSet\<close> returns all 118 atomic numbers and
  \<open>getElementsForBasisSet\<close> returns all of \<open>ALL_ELEMENTS\<close>. The code departs from it:
  \<open>constructor\<close> is not among the keys, yet \<open>supportedZSet\<close> and
  \<open>getElementsForBasisSet\<close> throw a \<open>TypeError\<close> for it instead of falling back.
\<close>

theorem fallback_inherited_name_throws:
  "map_of BASIS_SET_RANGES (toLowerCase ''constructor'') = None \<and>
   supportedZSet ''constructor'' = Inl TypeError \<and>
   getElementsForBasisSet ''constructor'' = Inl TypeError"
  by (simp add: getElementsForBasisSet_def supportedZSet_constructor lower_constructor
      BASIS_SET_RANGES_def)

section \<open>Polling\<close>

text \<open>
  C9. The two polling paths stop on different status sets. The \<open>refetchInterval\<close> of
  the \<open>JobStatus\<close> component returns \<open>false\<close> exactly when the fetched job is
  completed, failed or cancelled, and 2000 otherwise; the one for \<open>currentJob\<close> in
  \<open>useSimulation\<close> returns \<open>false\<close> only for completed or failed, so for a cancelled
  job it returns 2000 and the job keeps being polled.
\<close>

theorem polling_stop_sets_differ:
  "JobStatus_refetchInterval data =
     (if \<exists>job. data = Some job \<and> status job \<in> {Completed, Failed, Cancelled}
      then NoRefetch else Millis 2000) \<and>
   currentJob_refetchInterval data =
     (if \<exists>job. data = Some job \<and> status job \<in> {Completed, Failed}
      then NoRefetch else Millis 2000) \<and>
   JobStatus_refetchInterval (Some (job\<lparr>status := Cancelled\<rparr>)) = NoRefetch \<and>
   currentJob_refetchInterval (Some (job\<lparr>status := Cancelled\<rparr>)) = Millis 2000"
  by (cases data) (auto simp: JobStatus_refetchInterval_def currentJob_refetchInterval_def)

section \<open>The molecule builder keeps an atom\<close>

lemma filter_enumerate_above:
  "k < n \<Longrightarrow> filter (\<lambda>(i, _). i \<noteq> k) (enumerate n xs) = enumerate n xs"
  by (induction xs arbitrary: n) auto

lemma length_filter_enumerate:
  "n \<le> k \<Longrightarrow> k < n + length xs \<Longrightarrow>
   Suc (length (filter (\<lambda>(i, _). i \<noteq> k) (enumerate n xs))) = length xs"
proof (induction xs arbitrary: n)
  case Nil
  then show ?case by simp
next
  case (Cons x xs)
  show ?case
  proof (cases "n = k")
    case True
    then show ?thesis
      by (simp add: filter_enumerate_above)
  next
    case False
    with Cons.prems have "Suc n \<le> k" and "k < Suc n + length xs"
      by auto
    from Cons.IH [OF this] False show ?thesis
      by simp
  qed
qed

lemma length_handleRemoveAtom:
  "index < length (atoms m) \<Longrightarrow>
   Suc (length (atoms (handleRemoveAtom m index))) = length (atoms m)"
  using length_filter_enumerate [of 0 index "atoms m"]
  by (simp add: handleRemoveAtom_def)

lemma builder_click_nonempty:
  assumes ne: "atoms m \<noteq> []"
  shows "atoms (builder_click m ev) \<noteq> []"
proof (cases ev)
  case ClickAddAtom
  then show ?thesis
    by (simp add: builder_click_def handleAddAtom_def)
next
  case (ClickRemoveAtom index)
  show ?thesis
  proof (cases "index < length (atoms m) \<and> canRemove m")
    case True
    then have "Suc (length (atoms (handleRemoveAtom m index))) = length (atoms m)"
      and "1 < length (atoms m)"
      by (simp_all add: length_handleRemoveAtom canRemove_def)
    then have "0 < length (atoms (handleRemoveAtom m index))"
      by linarith
    with True ClickRemoveAtom show ?thesis
      by (simp add: builder_click_def)
  next
    case False
    with ClickRemoveAtom ne show ?thesis
      by (auto simp: builder_click_def)
  qed
qed

lemma foldl_builder_click_nonempty:
  "atoms m \<noteq> [] \<Longrightarrow> atoms (foldl builder_click m evs) \<noteq> []"
  by (induction evs arbitrary: m) (simp_all add: builder_click_nonempty)

text \<open>
  C10. A molecule built through \<open>MoleculeBuilder\<close> always has an atom: from a molecule
  with a non-empty atoms list, \<open>handleAddAtom\<close> makes the list one longer, the remove
  action is disabled (\<open>canRemove\<close> is false) when the list has exactly one atom, and no
  sequence of add and remove clicks yields an empty list.
\<close>

theorem builder_never_empty:
  assumes "atoms m \<noteq> []"
  shows "length (atoms (handleAddAtom m)) = length (atoms m) + 1 \<and>
    (length (atoms m) = 1 \<longrightarrow> \<not> canRemove m) \<and>
    atoms (foldl builder_click m evs) \<noteq> []"
  using assms
  by (simp add: handleAddAtom_def canRemove_def foldl_builder_click_nonempty)

theorem builder_never_empty_witness:
  "atoms DEFAULT_MOLECULE \<noteq> [] \<and>
   length (atoms (handleAddAtom DEFAULT_MOLECULE)) = 3 \<and>
   atoms (foldl builder_click DEFAULT_MOLECULE
     [ClickRemoveAtom 0, ClickRemoveAtom 0, ClickAddAtom, ClickRemoveAtom 1]) \<noteq> [] \<and>
   length (atoms (handleRemoveAtom DEFAULT_MOLECULE 0)) = 1 \<and>
   \<not> canRemove (handleRemoveAtom DEFAULT_MOLECULE 0)"
proof -
  have two: "atoms DEFAULT_MOLECULE \<noteq> []"
    by (simp add: DEFAULT_MOLECULE_def)
  have one: "length (atoms (handleRemoveAtom DEFAULT_MOLECULE 0)) = 1"
    by (simp add: DEFAULT_MOLECULE_def handleRemoveAtom_def)
  then have ne: "atoms (handleRemoveAtom DEFAULT_MOLECULE 0) \<noteq> []"
    by auto
  have len: "length (atoms DEFAULT_MOLECULE) = 2"
    by (simp add: DEFAULT_MOLECULE_def)
  show ?thesis
    using two one len
      builder_never_empty [OF two,
        of "[ClickRemoveAtom 0, ClickRemoveAtom 0, ClickAddAtom, ClickRemoveAtom 1]"]
      builder_never_empty [OF ne, of "[]"]
    by simp
qed

section \<open>The simulation page: validation and submission\<close>

text \<open>
  C3. The recommended method is advisory and not enforced at submission. The
  recommendation (\<open>vqe\<close> up to a threshold of 16 qubits, \<open>sqd\<close> above it) reaches the
  page in the validation response. After a successful validation has selected it, the
  user may set the method to \<open>vqe\<close> or \<open>sqd\<close>, and \<open>handleSubmit\<close> submits the method
  then selected: the request it sends is built from the page's molecule, method and
  configurations alone.
\<close>

theorem recommended_method_advisory:
  assumes "validate (molecule s) = Inr result" and "valid result"
  shows "step (handleValidate validate s) = StepConfig \<and>
    method (handleValidate validate s) =
      (case recommended_method result of Some r \<Rightarrow> r | None \<Rightarrow> method s) \<and>
    create_calls (handleSubmit createSimulation (setMethod m (handleValidate validate s))) =
      create_calls s @
        [\<lparr>req_molecule = molecule s, req_method = m,
          vqe_config = (if m = Vqe then Some (vqeConfig s) else None),
          sqd_config = (if m = Sqd then Some (sqdConfig s) else None)\<rparr>]"
  using assms
  by (auto simp: handleValidate_def handleSubmit_def setMethod_def submitRequest_def Let_def
      split: option.splits sum.splits)

theorem recommended_method_advisory_witness:
  "(\<lambda>_. Inr \<lparr>valid = True, validated_name = '''', num_atoms = 2, num_electrons = 2,
        num_qubits_required = 4, warnings = [], recommended_method = Some Vqe\<rparr>)
     (molecule initial_page) =
   Inr \<lparr>valid = True, validated_name = '''', num_atoms = 2, num_electrons = 2,
        num_qubits_required = 4, warnings = [], recommended_method = Some Vqe\<rparr> \<and>
   method (handleValidate
     (\<lambda>_. Inr \<lparr>valid = True, validated_name = '''', num_atoms = 2, num_electrons = 2,
        num_qubits_required = 4, warnings = [], recommended_method = Some Vqe\<rparr>)
     initial_page) = Vqe \<and>
   create_calls (handleSubmit (\<lambda>_. Inl ''offline'') (setMethod Sqd (handleValidate
     (\<lambda>_. Inr \<lparr>valid = True, validated_name = '''', num_atoms = 2, num_electrons = 2,
        num_qubits_required = 4, warnings = [], recommended_method = Some Vqe\<rparr>)
     initial_page))) =
   [\<lparr>req_molecule = DEFAULT_MOLECULE, req_method = Sqd, vqe_config = None,
     sqd_config = Some DEFAULT_SQD_CONFIG\<rparr>]"
  using recommended_method_advisory
    [of "\<lambda>_. Inr \<lparr>valid = True, validated_name = '''', num_atoms = 2, num_electrons = 2,
        num_qubits_required = 4, warnings = [], recommended_method = Some Vqe\<rparr>"
      initial_page
      "\<lparr>valid = True, validated_name = '''', num_atoms = 2, num_electrons = 2,
        num_qubits_required = 4, warnings = [], recommended_method = Some Vqe\<rparr>"
      "\<lambda>_. Inl ''offline''" Sqd]
  by (simp add: initial_page_def)

lemma page_click_validated:
  "validated_in_config s \<Longrightarrow>
   validated_in_config (page_click validate createSimulation s ev)"
  by (cases ev)
    (auto simp: validated_in_config_def page_click_def handleValidate_def handleSubmit_def
      setMethod_def Let_def split: sum.splits option.splits)

lemma foldl_page_click_validated:
  "validated_in_config s \<Longrightarrow>
   validated_in_config (foldl (page_click validate createSimulation) s evs)"
  by (induction evs arbitrary: s) (simp_all add: page_click_validated)

section \<open>The job lifecycle: lemmas\<close>

lemma Cancel_twice: "Cancel t2 (Cancel t1 j) = Cancel t1 j"
  by (cases "rec_status j") (simp_all add: Cancel_def terminal_def Let_def)

lemma Cancel_terminal: "terminal (rec_status j) \<Longrightarrow> Cancel t j = j"
  by (simp add: Cancel_def)





lemma Submit_valid:
  "valid (Validate mol m) \<Longrightarrow>
   fst (Submit Validate now store mol m config) = Inr (next_id store) \<and>
   records (snd (Submit Validate now store mol m config)) (next_id store) =
     Some (new_record (next_id store) now mol m config)"
  by (simp add: Submit_def Let_def)

section \<open>The job lifecycle: the claims\<close>

text \<open>
  C4. Cancel is idempotent: cancelling a job that is already in a terminal state is a
  no-op and not an error, so for every job, calling Cancel twice leaves the job record
  in the same state as calling it once. The last part states it for \<open>Cancel(job_id)\<close> on
  the store: the second call succeeds and changes nothing.
\<close>

theorem cancel_idempotent:
  "Cancel t2 (Cancel t1 j) = Cancel t1 j \<and>
   (terminal (rec_status j) \<longrightarrow> Cancel t1 j = j) \<and>
   (records store jid = Some j \<longrightarrow>
      CancelJob t2 (snd (CancelJob t1 store jid)) jid =
        (Inr (), snd (CancelJob t1 store jid)))"
  by (simp add: Cancel_twice Cancel_terminal CancelJob_def)

theorem cancel_idempotent_witness:
  "terminal (rec_status
     (Cancel 5 (new_record 0 1 DEFAULT_MOLECULE Vqe (Inl DEFAULT_VQE_CONFIG)))) \<and>
   Cancel 9 (Cancel 5 (new_record 0 1 DEFAULT_MOLECULE Vqe (Inl DEFAULT_VQE_CONFIG))) =
     Cancel 5 (new_record 0 1 DEFAULT_MOLECULE Vqe (Inl DEFAULT_VQE_CONFIG)) \<and>
   records \<lparr>records = [0 \<mapsto> new_record 0 1 DEFAULT_MOLECULE Vqe (Inl DEFAULT_VQE_CONFIG)],
            next_id = 1, queue = [0]\<rparr> 0 =
     Some (new_record 0 1 DEFAULT_MOLECULE Vqe (Inl DEFAULT_VQE_CONFIG)) \<and>
   fst (CancelJob 9 (snd (CancelJob 5
     \<lparr>records = [0 \<mapsto> new_record 0 1 DEFAULT_MOLECULE Vqe (Inl DEFAULT_VQE_CONFIG)],
      next_id = 1, queue = [0]\<rparr> 0)) 0) = Inr ()"
proof -
  have fin: "terminal (rec_status
      (Cancel 5 (new_record 0 1 DEFAULT_MOLECULE Vqe (Inl DEFAULT_VQE_CONFIG))))"
    by (simp add: Cancel_def new_record_def terminal_def)
  have found: "records
      \<lparr>records = [0 \<mapsto> new_record 0 1 DEFAULT_MOLECULE Vqe (Inl DEFAULT_VQE_CONFIG)],
       next_id = 1, queue = [0]\<rparr> 0 =
      Some (new_record 0 1 DEFAULT_MOLECULE Vqe (Inl DEFAULT_VQE_CONFIG))"
    by simp
  note once = cancel_idempotent [of 9 5
      "new_record 0 1 DEFAULT_MOLECULE Vqe (Inl DEFAULT_VQE_CONFIG)"
      "\<lparr>records = [0 \<mapsto> new_record 0 1 DEFAULT_MOLECULE Vqe (Inl DEFAULT_VQE_CONFIG)],
        next_id = 1, queue = [0]\<rparr>" 0]
  note again = cancel_idempotent [of 9 9
      "Cancel 5 (new_record 0 1 DEFAULT_MOLECULE Vqe (Inl DEFAULT_VQE_CONFIG))"
      "\<lparr>records = Map.empty, next_id = 0, queue = []\<rparr>" 0]
  from again fin have twice:
    "Cancel 9 (Cancel 5 (new_record 0 1 DEFAULT_MOLECULE Vqe (Inl DEFAULT_VQE_CONFIG))) =
     Cancel 5 (new_record 0 1 DEFAULT_MOLECULE Vqe (Inl DEFAULT_VQE_CONFIG))"
    by blast
  from once found have "CancelJob 9 (snd (CancelJob 5
      \<lparr>records = [0 \<mapsto> new_record 0 1 DEFAULT_MOLECULE Vqe (Inl DEFAULT_VQE_CONFIG)],
       next_id = 1, queue = [0]\<rparr> 0)) 0 =
    (Inr (), snd (CancelJob 5
      \<lparr>records = [0 \<mapsto> new_record 0 1 DEFAULT_MOLECULE Vqe (Inl DEFAULT_VQE_CONFIG)],
       next_id = 1, queue = [0]\<rparr> 0))"
    by blast
  then have ok: "fst (CancelJob 9 (snd (CancelJob 5
      \<lparr>records = [0 \<mapsto> new_record 0 1 DEFAULT_MOLECULE Vqe (Inl DEFAULT_VQE_CONFIG)],
       next_id = 1, queue = [0]\<rparr> 0)) 0) = Inr ()"
    by simp
  from fin twice found ok show ?thesis
    by blast
qed

text \<open>
  C5. Submission with an invalid molecule fails with \<open>ValidationError\<close> and creates no
  job record: the store is unchanged. On the client, the page advances from the build
  step to the configuration step, where the simulation is submitted, only when the
  validation result has \<open>valid = true\<close>: \<open>handleValidate\<close> reaches the configuration
  step exactly on a valid response, and whatever the user does from the initial page,
  the page is in the configuration step only with a valid validation result at hand.
\<close>

theorem invalid_molecule_not_submitted:
  "(\<not> valid (Validate mol m) \<longrightarrow>
      Submit Validate now store mol m config = (Inl ValidationError, store)) \<and>
   (step s = StepBuild \<longrightarrow>
      (step (handleValidate validate s) = StepConfig) =
      (\<exists>result. validate (molecule s) = Inr result \<and> valid result)) \<and>
   validated_in_config (foldl (page_click validate createSimulation) initial_page evs)"
proof -
  have "validated_in_config initial_page"
    by (simp add: validated_in_config_def initial_page_def)
  then have
    "validated_in_config (foldl (page_click validate createSimulation) initial_page evs)"
    by (rule foldl_page_click_validated)
  then show ?thesis
    by (auto simp: Submit_def handleValidate_def Let_def split: option.splits sum.splits)
qed

theorem invalid_molecule_not_submitted_witness:
  "\<not> valid ((\<lambda>_ _. \<lparr>valid = False, validated_name = '''', num_atoms = 1,
        num_electrons = 19, num_qubits_required = 0,
        warnings = [''K is not supported by cc-pvdz''],
        recommended_method = Some Vqe\<rparr>)
      (DEFAULT_MOLECULE\<lparr>atoms := [\<lparr>atom_symbol = ''K'', position = (0, 0, 0)\<rparr>],
         basis_set := ''cc-pvdz''\<rparr>) Vqe) \<and>
   Submit (\<lambda>_ _. \<lparr>valid = False, validated_name = '''', num_atoms = 1,
        num_electrons = 19, num_qubits_required = 0,
        warnings = [''K is not supported by cc-pvdz''],
        recommended_method = Some Vqe\<rparr>) 7
      \<lparr>records = Map.empty, next_id = 0, queue = []\<rparr>
      (DEFAULT_MOLECULE\<lparr>atoms := [\<lparr>atom_symbol = ''K'', position = (0, 0, 0)\<rparr>],
         basis_set := ''cc-pvdz''\<rparr>) Vqe (Inl DEFAULT_VQE_CONFIG) =
     (Inl ValidationError, \<lparr>records = Map.empty, next_id = 0, queue = []\<rparr>) \<and>
   step initial_page = StepBuild \<and>
   step (handleValidate (\<lambda>_. Inr \<lparr>valid = False, validated_name = '''', num_atoms = 1,
        num_electrons = 19, num_qubits_required = 0,
        warnings = [''K is not supported by cc-pvdz''],
        recommended_method = Some Vqe\<rparr>) initial_page) \<noteq> StepConfig \<and>
   validated_in_config (foldl (page_click
     (\<lambda>_. Inr \<lparr>valid = False, validated_name = '''', num_atoms = 1,
        num_electrons = 19, num_qubits_required = 0,
        warnings = [''K is not supported by cc-pvdz''],
        recommended_method = Some Vqe\<rparr>) (\<lambda>_. Inl ''offline''))
     initial_page [ClickValidate, ClickRun])"
  using invalid_molecule_not_submitted
    [of "\<lambda>_ _. \<lparr>valid = False, validated_name = '''', num_atoms = 1,
        num_electrons = 19, num_qubits_required = 0,
        warnings = [''K is not supported by cc-pvdz''],
        recommended_method = Some Vqe\<rparr>"
      "DEFAULT_MOLECULE\<lparr>atoms := [\<lparr>atom_symbol = ''K'', position = (0, 0, 0)\<rparr>],
         basis_set := ''cc-pvdz''\<rparr>"
      Vqe 7 "\<lparr>records = Map.empty, next_id = 0, queue = []\<rparr>" "Inl DEFAULT_VQE_CONFIG"
      initial_page
      "\<lambda>_. Inr \<lparr>valid = False, validated_name = '''', num_atoms = 1,
        num_electrons = 19, num_qubits_required = 0,
        warnings = [''K is not supported by cc-pvdz''],
        recommended_method = Some Vqe\<rparr>"
      "\<lambda>_. Inl ''offline''" "[ClickValidate, ClickRun]"]
  by (simp add: initial_page_def)




end
